theory Spec2Isabelle
  imports Complex_Main
begin

section \<open>JavaScript values of the request bodies\<close>

text \<open>
  The handlers read fields of \<^verbatim>\<open>req.body\<close>, which \<^verbatim>\<open>express.json()\<close> has parsed. A field is
  absent (\<open>JUndefined\<close>) or a JSON scalar; arrays and objects as field values are not
  modelled. Numbers are exact rationals: the rounding of IEEE doubles, \<^verbatim>\<open>NaN\<close>, the
  infinities and \<^verbatim>\<open>-0\<close> are outside the model.
\<close>

datatype jsval = JUndefined | JNull | JBool bool | JNum rat | JStr string

fun truthy :: "jsval \<Rightarrow> bool" where
  "truthy JUndefined = False"
| "truthy JNull = False"
| "truthy (JBool b) = b"
| "truthy (JNum r) = (r \<noteq> 0)"
| "truthy (JStr s) = (s \<noteq> [])"

fun typeof :: "jsval \<Rightarrow> string" where
  "typeof JUndefined = ''undefined''"
| "typeof JNull = ''object''"
| "typeof (JBool b) = ''boolean''"
| "typeof (JNum r) = ''number''"
| "typeof (JStr s) = ''string''"

text \<open>The number held by a value whose \<open>typeof\<close> is \<^verbatim>\<open>number\<close>; it is only read there.\<close>

fun num_of :: "jsval \<Rightarrow> rat" where
  "num_of (JNum r) = r"
| "num_of v = 0"

text \<open>
  What the services rely on but the repository does not contain: the conversion by
  PostgreSQL of a text parameter to the type of the \<^verbatim>\<open>account_id\<close> column and of a number
  parameter to the type of the \<^verbatim>\<open>user_id\<close> column (\<open>None\<close>: the query raises, as it does
  for a value outside the column's range), the conversion of a JavaScript string to a
  number (\<open>None\<close>: \<^verbatim>\<open>NaN\<close>), and the conversion by PostgreSQL of a parameter that is not a
  number to the type of the balance column (\<open>None\<close>: the query raises). They are
  parameters of the model; every theorem holds for each choice of them.
\<close>

record env =
  pg_int :: "string \<Rightarrow> int option"
  pg_user :: "rat \<Rightarrow> int option"
  str_num :: "string \<Rightarrow> rat option"
  pg_numeric :: "jsval \<Rightarrow> rat option"

fun to_number :: "env \<Rightarrow> jsval \<Rightarrow> rat option" where
  "to_number E JUndefined = None"
| "to_number E JNull = Some 0"
| "to_number E (JBool b) = Some (if b then 1 else 0)"
| "to_number E (JNum r) = Some r"
| "to_number E (JStr s) = str_num E s"

text \<open>\<^verbatim>\<open>v < r\<close>, \<^verbatim>\<open>v > r\<close> and \<^verbatim>\<open>v <= r\<close> with a number on the right: false when \<open>v\<close> converts to \<^verbatim>\<open>NaN\<close>.\<close>

definition js_lt :: "env \<Rightarrow> jsval \<Rightarrow> rat \<Rightarrow> bool" where
  "js_lt E v r = (case to_number E v of None \<Rightarrow> False | Some x \<Rightarrow> x < r)"

definition js_gt :: "env \<Rightarrow> jsval \<Rightarrow> rat \<Rightarrow> bool" where
  "js_gt E v r = (case to_number E v of None \<Rightarrow> False | Some x \<Rightarrow> x > r)"

definition js_le :: "env \<Rightarrow> jsval \<Rightarrow> rat \<Rightarrow> bool" where
  "js_le E v r = (case to_number E v of None \<Rightarrow> False | Some x \<Rightarrow> x \<le> r)"

section \<open>Strings\<close>

definition is_digit :: "char \<Rightarrow> bool" where
  "is_digit c = (c \<in> set ''0123456789'')"

text \<open>\<^verbatim>\<open>/^\d+$/.test(s)\<close>\<close>

definition all_digits :: "string \<Rightarrow> bool" where
  "all_digits s = (s \<noteq> [] \<and> list_all is_digit s)"

definition digit_val :: "char \<Rightarrow> nat" where
  "digit_val c = of_char c - 48"

text \<open>The integer that a string of decimal digits denotes.\<close>

definition digits_value :: "string \<Rightarrow> nat" where
  "digits_value s = foldl (\<lambda>a c. 10 * a + digit_val c) 0 s"

text \<open>
  The Number value of a natural number: the nearest double, ties to the even significand
  of 53 bits; \<open>None\<close> is \<^verbatim>\<open>Infinity\<close>. \<open>excess n\<close> is the number of low bits of \<open>n\<close> that a
  significand of 53 bits cannot hold.
\<close>

fun excess :: "nat \<Rightarrow> nat" where
  "excess n = (if n < 9007199254740992 then 0 else Suc (excess (n div 2)))"

declare excess.simps [simp del]

definition nearest_double :: "nat \<Rightarrow> rat option" where
  "nearest_double n =
     (let e = excess n; q = n div 2 ^ e; r = n mod 2 ^ e;
          m = (if 2 ^ e < 2 * r \<or> (2 * r = 2 ^ e \<and> odd q) then q + 1 else q) * 2 ^ e
      in if 2 ^ 1024 \<le> m then None else Some (of_nat m))"

text \<open>
  \<^verbatim>\<open>parseInt\<close>, which the source applies to strings of decimal digits only: the Number
  value of the integer they denote, taken exactly, as Node does.
\<close>

definition parseInt :: "string \<Rightarrow> rat option" where
  "parseInt s = nearest_double (digits_value s)"

text \<open>\<^verbatim>\<open>n.toString()\<close> of a natural number.\<close>

fun toString :: "nat \<Rightarrow> string" where
  "toString n =
     (if n < 10 then [''0123456789'' ! n]
      else toString (n div 10) @ [''0123456789'' ! (n mod 10)])"

declare toString.simps [simp del]

definition padStart :: "nat \<Rightarrow> char \<Rightarrow> string \<Rightarrow> string" where
  "padStart n c s = replicate (n - length s) c @ s"

text \<open>\<^verbatim>\<open>s.replace(/\d(?=\d{4})/g, '*')\<close>: every digit that four digits follow becomes a star.\<close>

fun mask_digits :: "string \<Rightarrow> string" where
  "mask_digits [] = []"
| "mask_digits (c # cs) =
     (if is_digit c \<and> 4 \<le> length cs \<and> list_all is_digit (take 4 cs) then CHR ''*'' else c)
     # mask_digits cs"

section \<open>The accounts table\<close>

text \<open>
  The table's declaration is not among the sources. A row has the columns the queries
  name (the two timestamps are left out); \<open>account_id\<close> is assigned by the database on
  insertion, from a sequence; the balance column holds the number written to it exactly.
\<close>

record account =
  account_id :: int
  user_id :: int
  account_number :: string
  account_type :: string
  balance :: rat

record database =
  accounts :: "account list"
  next_account_id :: int

text \<open>\<^verbatim>\<open>SELECT ... FROM accounts WHERE account_id = $1 AND user_id = $2\<close>\<close>

definition select_account :: "int \<Rightarrow> int \<Rightarrow> database \<Rightarrow> account list" where
  "select_account aid uid d = filter (\<lambda>r. account_id r = aid \<and> user_id r = uid) (accounts d)"

text \<open>\<^verbatim>\<open>UPDATE accounts SET balance = $1 WHERE account_id = $2 AND user_id = $3\<close>\<close>

definition update_balance :: "rat \<Rightarrow> int \<Rightarrow> int \<Rightarrow> database \<Rightarrow> database" where
  "update_balance b aid uid d =
     d\<lparr>accounts := map (\<lambda>r. if account_id r = aid \<and> user_id r = uid then r\<lparr>balance := b\<rparr> else r)
                        (accounts d)\<rparr>"

text \<open>\<^verbatim>\<open>INSERT INTO accounts (...) VALUES ($1, $2, $3, $4) RETURNING account_id\<close>\<close>

definition insert_account :: "int \<Rightarrow> string \<Rightarrow> string \<Rightarrow> rat \<Rightarrow> database \<Rightarrow> int \<times> database" where
  "insert_account uid num ty b d =
     (next_account_id d,
      \<lparr>accounts = accounts d @
         [\<lparr>account_id = next_account_id d, user_id = uid, account_number = num,
           account_type = ty, balance = b\<rparr>],
       next_account_id = next_account_id d + 1\<rparr>)"

definition empty_database :: database where
  "empty_database = \<lparr>accounts = [], next_account_id = 1\<rparr>"

section \<open>Log entries and responses\<close>

text \<open>
  One constructor for each \<^verbatim>\<open>logger\<close> call of the handlers, with the metadata it records
  (the text of a caught error's message is left out).
\<close>

datatype log_entry =
    InvalidAccountIdFormat string rat
  | UnauthorizedAccess string rat
  | AccountNotFound string rat
  | AccountAccessed string rat
  | ErrorFetchingAccount string rat
  | NewAccountCreated int rat jsval
  | ErrorCreatingAccount rat
  | InsufficientFundsAttempt string rat jsval jsval
  | BalanceUpdated string rat rat jsval jsval
  | ErrorUpdatingBalance string rat
  | InvalidTransactionRequest jsval jsval jsval
  | TransactionProcessed string jsval jsval jsval string

datatype payload =
    ErrorBody string
  | AccountBody int string rat string
  | CreatedBody int string jsval jsval
  | BalanceBody rat jsval jsval
  | TransactionBody string string jsval jsval jsval string
  | TransactionInfo string string rat string string

datatype response = Response (status: nat) (payload: payload)

section \<open>The account service\<close>

text \<open>
  The state the handlers of the account service act on: the database behind \<^verbatim>\<open>pool\<close> and
  what \<^verbatim>\<open>logger\<close> has written. The handlers are modelled behind \<^verbatim>\<open>authenticateToken\<close>:
  \<open>uid\<close> is \<^verbatim>\<open>req.user.id\<close>, a number.
\<close>

record service =
  pool :: database
  logger :: "log_entry list"

definition internal_error :: response where
  "internal_error = Response 500 (ErrorBody ''Internal server error'')"

text \<open>
  The parameters \<^verbatim>\<open>[accountId, req.user.id]\<close> of a query as the database reads them; the
  query raises when it cannot read one of them.
\<close>

definition bind_ids :: "env \<Rightarrow> string \<Rightarrow> rat \<Rightarrow> (int \<times> int) option" where
  "bind_ids E accountId uid =
     (case pg_int E accountId of
        None \<Rightarrow> None
      | Some aid \<Rightarrow> (case pg_user E uid of None \<Rightarrow> None | Some owner \<Rightarrow> Some (aid, owner)))"

text \<open>\<^verbatim>\<open>GET /api/account/:id\<close>\<close>

definition get_account :: "env \<Rightarrow> rat \<Rightarrow> string \<Rightarrow> service \<Rightarrow> response \<times> service" where
  "get_account E uid accountId s =
     (if accountId = [] \<or> \<not> all_digits accountId then
        (Response 400 (ErrorBody ''Invalid account ID''),
         s\<lparr>logger := logger s @ [InvalidAccountIdFormat accountId uid]\<rparr>)
      else if Some uid \<noteq> parseInt accountId then
        (Response 403 (ErrorBody ''Access denied''),
         s\<lparr>logger := logger s @ [UnauthorizedAccess accountId uid]\<rparr>)
      else
        (case bind_ids E accountId uid of
           None \<Rightarrow> (internal_error, s\<lparr>logger := logger s @ [ErrorFetchingAccount accountId uid]\<rparr>)
         | Some (aid, owner) \<Rightarrow>
            (case select_account aid owner (pool s) of
               [] \<Rightarrow>
                 (Response 404 (ErrorBody ''Account not found''),
                  s\<lparr>logger := logger s @ [AccountNotFound accountId uid]\<rparr>)
             | row # rest \<Rightarrow>
                 (Response 200
                    (AccountBody (account_id row) (mask_digits (account_number row))
                       (balance row) (account_type row)),
                  s\<lparr>logger := logger s @ [AccountAccessed accountId uid]\<rparr>))))"

text \<open>
  \<^verbatim>\<open>POST /api/account\<close>; \<open>rnd\<close> is \<^verbatim>\<open>Math.floor(Math.random() * 1000000000)\<close>. A deposit that
  is a number is written to the balance column as it is.
\<close>

definition balance_param :: "env \<Rightarrow> jsval \<Rightarrow> rat option" where
  "balance_param E v = (case v of JNum r \<Rightarrow> Some r | _ \<Rightarrow> pg_numeric E v)"

fun str_of :: "jsval \<Rightarrow> string" where
  "str_of (JStr s) = s"
| "str_of v = []"

text \<open>
  The parameters \<^verbatim>\<open>req.user.id\<close> and \<^verbatim>\<open>initialDeposit\<close> of the insertion as the database
  reads them.
\<close>

definition bind_insert :: "env \<Rightarrow> rat \<Rightarrow> jsval \<Rightarrow> (int \<times> rat) option" where
  "bind_insert E uid initialDeposit =
     (case pg_user E uid of
        None \<Rightarrow> None
      | Some owner \<Rightarrow>
          (case balance_param E initialDeposit of None \<Rightarrow> None | Some b \<Rightarrow> Some (owner, b)))"

definition post_account :: "env \<Rightarrow> nat \<Rightarrow> rat \<Rightarrow> jsval \<Rightarrow> jsval \<Rightarrow> service \<Rightarrow> response \<times> service" where
  "post_account E rnd uid accountType initialDeposit s =
     (if \<not> truthy accountType \<or> accountType \<notin> set [JStr ''checking'', JStr ''savings''] then
        (Response 400 (ErrorBody ''Invalid account type''), s)
      else if \<not> truthy initialDeposit \<or> js_lt E initialDeposit 0
                \<or> js_gt E initialDeposit 1000000 then
        (Response 400 (ErrorBody ''Invalid initial deposit amount''), s)
      else
        (let accountNumber = padStart 10 (CHR ''0'') (toString rnd) in
         case bind_insert E uid initialDeposit of
           None \<Rightarrow> (internal_error, s\<lparr>logger := logger s @ [ErrorCreatingAccount uid]\<rparr>)
         | Some (owner, b) \<Rightarrow>
            (case insert_account owner accountNumber (str_of accountType) b (pool s) of
               (aid, d) \<Rightarrow>
                 (Response 201
                    (CreatedBody aid (mask_digits accountNumber) accountType initialDeposit),
                  \<lparr>pool = d, logger = logger s @ [NewAccountCreated aid uid accountType]\<rparr>))))"

text \<open>
  \<^verbatim>\<open>PATCH /api/account/:id/balance\<close>. The handler awaits two queries, and other requests
  run between them. \<open>patch_select\<close> is the handler up to the second \<^verbatim>\<open>await\<close>: it has
  replied, or it holds \<^verbatim>\<open>currentBalance\<close> and \<^verbatim>\<open>newBalance\<close> and is about to issue the update.
  \<open>patch_update\<close> is the rest of the handler.
\<close>

datatype patch_phase = Replied response | AwaitingUpdate rat rat

definition patch_select ::
  "env \<Rightarrow> rat \<Rightarrow> string \<Rightarrow> jsval \<Rightarrow> jsval \<Rightarrow> service \<Rightarrow> patch_phase \<times> service" where
  "patch_select E uid accountId amount transactionType s =
     (if \<not> truthy amount \<or> typeof amount \<noteq> ''number'' then
        (Replied (Response 400 (ErrorBody ''Invalid amount'')), s)
      else if transactionType \<notin> set [JStr ''credit'', JStr ''debit''] then
        (Replied (Response 400 (ErrorBody ''Invalid transaction type'')), s)
      else
        (case bind_ids E accountId uid of
           None \<Rightarrow>
             (Replied internal_error,
              s\<lparr>logger := logger s @ [ErrorUpdatingBalance accountId uid]\<rparr>)
         | Some (aid, owner) \<Rightarrow>
            (case select_account aid owner (pool s) of
               [] \<Rightarrow> (Replied (Response 404 (ErrorBody ''Account not found'')), s)
             | row # rest \<Rightarrow>
                 (let currentBalance = balance row;
                      newBalance = (if transactionType = JStr ''credit''
                                    then currentBalance + num_of amount
                                    else currentBalance - num_of amount)
                  in if newBalance < 0 then
                       (Replied (Response 400 (ErrorBody ''Insufficient funds'')),
                        s\<lparr>logger := logger s @
                           [InsufficientFundsAttempt accountId currentBalance amount
                              transactionType]\<rparr>)
                     else (AwaitingUpdate currentBalance newBalance, s)))))"

definition patch_update ::
  "env \<Rightarrow> rat \<Rightarrow> string \<Rightarrow> jsval \<Rightarrow> jsval \<Rightarrow> rat \<Rightarrow> rat \<Rightarrow> service \<Rightarrow> response \<times> service" where
  "patch_update E uid accountId amount transactionType currentBalance newBalance s =
     (case bind_ids E accountId uid of
        None \<Rightarrow> (internal_error, s\<lparr>logger := logger s @ [ErrorUpdatingBalance accountId uid]\<rparr>)
      | Some (aid, owner) \<Rightarrow>
          (Response 200 (BalanceBody newBalance transactionType amount),
           \<lparr>pool = update_balance newBalance aid owner (pool s),
            logger = logger s @
              [BalanceUpdated accountId currentBalance newBalance transactionType amount]\<rparr>))"

text \<open>The handler when nothing runs between its two queries.\<close>

definition patch_balance ::
  "env \<Rightarrow> rat \<Rightarrow> string \<Rightarrow> jsval \<Rightarrow> jsval \<Rightarrow> service \<Rightarrow> response \<times> service" where
  "patch_balance E uid accountId amount transactionType s =
     (case patch_select E uid accountId amount transactionType s of
        (Replied r, s') \<Rightarrow> (r, s')
      | (AwaitingUpdate currentBalance newBalance, s') \<Rightarrow>
          patch_update E uid accountId amount transactionType currentBalance newBalance s')"

section \<open>The transaction service\<close>

text \<open>
  The transaction service holds no database connection: its handlers see the request and
  the service's own \<^verbatim>\<open>logger\<close> only. \<open>rnd\<close> is \<^verbatim>\<open>Math.random().toString(36)\<close>, and \<open>t1\<close>, \<open>t2\<close>
  are the two readings of the clock.
\<close>

definition post_transaction ::
  "env \<Rightarrow> string \<Rightarrow> string \<Rightarrow> string \<Rightarrow> jsval \<Rightarrow> jsval \<Rightarrow> jsval \<Rightarrow> log_entry list
     \<Rightarrow> response \<times> log_entry list" where
  "post_transaction E rnd t1 t2 fromAccount toAccount amount lg =
     (if \<not> truthy fromAccount \<or> \<not> truthy toAccount \<or> \<not> truthy amount \<or> js_le E amount 0 then
        (Response 400 (ErrorBody ''Invalid transaction data''),
         lg @ [InvalidTransactionRequest fromAccount toAccount amount])
      else
        (let transactionId = ''txn_'' @ take 9 (drop 2 rnd) in
         (Response 201
            (TransactionBody transactionId ''completed'' fromAccount toAccount amount t2),
          lg @ [TransactionProcessed transactionId fromAccount toAccount amount t1])))"

text \<open>\<^verbatim>\<open>GET /api/transaction/:id\<close>\<close>

definition get_transaction :: "string \<Rightarrow> string \<Rightarrow> response" where
  "get_transaction transactionId t =
     Response 200 (TransactionInfo transactionId ''completed'' 150 t ''Account transfer'')"

section \<open>The two services under a schedule of requests\<close>

text \<open>
  Node runs a handler without interruption from one \<^verbatim>\<open>await\<close> to the next. A schedule is
  a list of events: a request handled in one piece, the arrival of a balance update
  (tagged with a number, run up to its second query) and its resumption (the rest of
  the handler). \<open>Patch\<close> is a balance update during which nothing else runs.
\<close>

datatype inflight = InFlight rat string jsval jsval rat rat

record system =
  acct :: service
  txn_logger :: "log_entry list"
  awaiting :: "(nat \<times> inflight) list"
  sent :: "response list"

datatype event =
    GetAccount rat string
  | PostAccount nat rat jsval jsval
  | Patch rat string jsval jsval
  | PatchArrives nat rat string jsval jsval
  | PatchResumes nat
  | PostTransaction string string string jsval jsval jsval
  | GetTransaction string string

fun step :: "env \<Rightarrow> event \<Rightarrow> system \<Rightarrow> system" where
  "step E (GetAccount uid accountId) c =
     (case get_account E uid accountId (acct c) of
        (r, s) \<Rightarrow> c\<lparr>acct := s, sent := sent c @ [r]\<rparr>)"
| "step E (PostAccount rnd uid accountType initialDeposit) c =
     (case post_account E rnd uid accountType initialDeposit (acct c) of
        (r, s) \<Rightarrow> c\<lparr>acct := s, sent := sent c @ [r]\<rparr>)"
| "step E (Patch uid accountId amount transactionType) c =
     (case patch_balance E uid accountId amount transactionType (acct c) of
        (r, s) \<Rightarrow> c\<lparr>acct := s, sent := sent c @ [r]\<rparr>)"
| "step E (PatchArrives k uid accountId amount transactionType) c =
     (if k \<in> set (map fst (awaiting c)) then c
      else
        (case patch_select E uid accountId amount transactionType (acct c) of
           (Replied r, s) \<Rightarrow> c\<lparr>acct := s, sent := sent c @ [r]\<rparr>
         | (AwaitingUpdate currentBalance newBalance, s) \<Rightarrow>
             c\<lparr>acct := s,
               awaiting := awaiting c @
                 [(k, InFlight uid accountId amount transactionType currentBalance newBalance)]\<rparr>))"
| "step E (PatchResumes k) c =
     (case map_of (awaiting c) k of
        None \<Rightarrow> c
      | Some (InFlight uid accountId amount transactionType currentBalance newBalance) \<Rightarrow>
          (case patch_update E uid accountId amount transactionType currentBalance newBalance
                  (acct c) of
             (r, s) \<Rightarrow>
               c\<lparr>acct := s, awaiting := filter (\<lambda>p. fst p \<noteq> k) (awaiting c),
                 sent := sent c @ [r]\<rparr>))"
| "step E (PostTransaction rnd t1 t2 fromAccount toAccount amount) c =
     (case post_transaction E rnd t1 t2 fromAccount toAccount amount (txn_logger c) of
        (r, lg) \<Rightarrow> c\<lparr>txn_logger := lg, sent := sent c @ [r]\<rparr>)"
| "step E (GetTransaction transactionId t) c =
     c\<lparr>sent := sent c @ [get_transaction transactionId t]\<rparr>"

definition run :: "env \<Rightarrow> event list \<Rightarrow> system \<Rightarrow> system" where
  "run E evs c = foldl (\<lambda>c e. step E e c) c evs"

definition initial_system :: system where
  "initial_system =
     \<lparr>acct = \<lparr>pool = empty_database, logger = []\<rparr>, txn_logger = [], awaiting = [], sent = []\<rparr>"

text \<open>A schedule in which no balance update is split.\<close>

fun unsplit :: "event \<Rightarrow> bool" where
  "unsplit (PatchArrives k uid accountId amount transactionType) = False"
| "unsplit (PatchResumes k) = False"
| "unsplit e = True"

section \<open>Observations\<close>

text \<open>The balance a handler reads for an account and a caller: that of the first row selected.\<close>

definition stored_balance :: "database \<Rightarrow> int \<Rightarrow> int \<Rightarrow> rat option" where
  "stored_balance d aid uid =
     (case select_account aid uid d of [] \<Rightarrow> None | row # rest \<Rightarrow> Some (balance row))"

text \<open>The balances stored under an account id, whoever owns it.\<close>

definition balances_of :: "database \<Rightarrow> int \<Rightarrow> rat list" where
  "balances_of d aid = map balance (filter (\<lambda>r. account_id r = aid) (accounts d))"

definition nonneg :: "database \<Rightarrow> bool" where
  "nonneg d = list_all (\<lambda>r. 0 \<le> balance r) (accounts d)"

fun inflight_nonneg :: "nat \<times> inflight \<Rightarrow> bool" where
  "inflight_nonneg (k, InFlight uid accountId amount transactionType currentBalance newBalance) =
     (0 \<le> newBalance)"

definition never_negative :: "system \<Rightarrow> bool" where
  "never_negative c = (nonneg (pool (acct c)) \<and> list_all inflight_nonneg (awaiting c))"

text \<open>
  Replaying the \<^verbatim>\<open>Balance updated\<close> entries of a log for one account: an entry belongs to
  the account when its \<^verbatim>\<open>accountId\<close> denotes it, and applies its amount by its kind.
\<close>

fun apply_entry :: "env \<Rightarrow> int \<Rightarrow> rat \<Rightarrow> log_entry \<Rightarrow> rat" where
  "apply_entry E aid b (BalanceUpdated accountId oldBalance newBalance transactionType amount) =
     (if pg_int E accountId = Some aid
      then (if transactionType = JStr ''credit'' then b + num_of amount else b - num_of amount)
      else b)"
| "apply_entry E aid b e = b"

definition replay :: "env \<Rightarrow> int \<Rightarrow> rat \<Rightarrow> log_entry list \<Rightarrow> rat" where
  "replay E aid b es = foldl (apply_entry E aid) b es"

fun is_balance_updated :: "log_entry \<Rightarrow> bool" where
  "is_balance_updated (BalanceUpdated accountId oldBalance newBalance transactionType amount) = True"
| "is_balance_updated e = False"

text \<open>The \<^verbatim>\<open>Balance updated\<close> entries of a log.\<close>

definition audit_entries :: "log_entry list \<Rightarrow> log_entry list" where
  "audit_entries lg = filter is_balance_updated lg"

text \<open>Every account id is below the next value of the sequence that assigns them.\<close>

definition sequence_ahead :: "database \<Rightarrow> bool" where
  "sequence_ahead d = list_all (\<lambda>r. account_id r < next_account_id d) (accounts d)"

text \<open>The \<^verbatim>\<open>status\<close> field of a transaction record in a response.\<close>

fun record_status :: "response \<Rightarrow> string option" where
  "record_status (Response n (TransactionBody transactionId st fromAccount toAccount amount t)) =
     Some st"
| "record_status (Response n (TransactionInfo transactionId st amount t description)) = Some st"
| "record_status r = None"

text \<open>
  An environment to evaluate the examples in, given on the parameters they use: the id
  columns hold 32-bit integers, PostgreSQL reads a string of digits as its number and
  refuses any other text, a string of digits converts to its number in JavaScript and the
  other strings used do not, and PostgreSQL refuses a balance that is not a number.
\<close>

definition plain_env :: env where
  "plain_env =
     \<lparr>pg_int = (\<lambda>s. if all_digits s \<and> digits_value s \<le> 2147483647
                     then Some (int (digits_value s)) else None),
      pg_user = (\<lambda>r. if rat_of_int \<lfloor>r\<rfloor> = r \<and> - 2147483648 \<le> r \<and> r \<le> 2147483647
                      then Some \<lfloor>r\<rfloor> else None),
      str_num = (\<lambda>s. if all_digits s then Some (of_nat (digits_value s)) else None),
      pg_numeric = (\<lambda>v. None)\<rparr>"

text \<open>
  The same with the numeric input of PostgreSQL 16, which reads digits grouped by
  underscores: the text \<^verbatim>\<open>-1_000\<close> is the number -1000 there, and is not a number in
  JavaScript.
\<close>

definition postgres16_env :: env where
  "postgres16_env =
     plain_env\<lparr>pg_numeric := (\<lambda>v. if v = JStr ''-1_000'' then Some (- 1000) else None)\<rparr>"


text \<open>The deposit of a request that opens an account is a JSON number, or is missing.\<close>

fun deposit_is_number :: "event \<Rightarrow> bool" where
  "deposit_is_number (PostAccount rnd uid accountType initialDeposit) =
     (typeof initialDeposit = ''number'' \<or> initialDeposit = JUndefined)"
| "deposit_is_number e = True"

text \<open>States of the account service for the examples.\<close>

definition no_accounts :: service where
  "no_accounts = \<lparr>pool = empty_database, logger = []\<rparr>"

definition ledger60 :: service where
  "ledger60 =
     \<lparr>pool = \<lparr>accounts = [\<lparr>account_id = 1, user_id = 1, account_number = ''0000123456'',
                            account_type = ''checking'', balance = 60\<rparr>],
              next_account_id = 2\<rparr>,
      logger = []\<rparr>"

definition ledger100 :: service where
  "ledger100 =
     \<lparr>pool = \<lparr>accounts = [\<lparr>account_id = 1, user_id = 1, account_number = ''0000123456'',
                            account_type = ''checking'', balance = 100\<rparr>],
              next_account_id = 2\<rparr>,
      logger = []\<rparr>"

definition ledger7 :: service where
  "ledger7 =
     \<lparr>pool = \<lparr>accounts = [\<lparr>account_id = 1, user_id = 7, account_number = ''0000123456'',
                            account_type = ''checking'', balance = 100\<rparr>],
              next_account_id = 2\<rparr>,
      logger = []\<rparr>"

definition two_accounts :: service where
  "two_accounts =
     \<lparr>pool = \<lparr>accounts = [\<lparr>account_id = 1, user_id = 1, account_number = ''0000123456'',
                            account_type = ''checking'', balance = 60\<rparr>,
                          \<lparr>account_id = 2, user_id = 2, account_number = ''0000654321'',
                            account_type = ''savings'', balance = 10\<rparr>],
              next_account_id = 3\<rparr>,
      logger = []\<rparr>"

definition system_of :: "service \<Rightarrow> system" where
  "system_of s = \<lparr>acct = s, txn_logger = [], awaiting = [], sent = []\<rparr>"

section \<open>Evaluation and basic facts\<close>

lemmas handler_defs =
  get_account_def post_account_def patch_select_def patch_update_def patch_balance_def
  post_transaction_def get_transaction_def internal_error_def balance_param_def
  bind_ids_def bind_insert_def
  js_lt_def js_gt_def js_le_def select_account_def update_balance_def insert_account_def
  empty_database_def

lemmas string_defs =
  all_digits_def is_digit_def parseInt_def nearest_double_def excess.simps digits_value_def
  digit_val_def toString.simps padStart_def

lemmas example_defs =
  run_def initial_system_def plain_env_def stored_balance_def balances_of_def system_of_def

lemma replicate_4: "replicate 4 c = [c, c, c, c]"
  by (simp add: numeral_eq_Suc)

lemma typeof_number: "typeof v = ''number'' \<longleftrightarrow> (\<exists>r. v = JNum r)"
  by (cases v) simp_all

lemma get_account_pool: "pool (snd (get_account E uid accountId s)) = pool s"
  by (simp add: get_account_def split: option.splits list.splits prod.splits)

lemma patch_select_pool: "pool (snd (patch_select E uid accountId amount ty s)) = pool s"
  by (simp add: patch_select_def Let_def split: option.splits list.splits prod.splits)

lemma patch_select_awaiting:
  "patch_select E uid accountId amount ty s = (AwaitingUpdate cur new, s') \<Longrightarrow> 0 \<le> new \<and> s' = s"
  by (auto simp: patch_select_def Let_def split: option.splits list.splits if_splits prod.splits)

lemma filter_update_rows:
  "filter (\<lambda>r. account_id r = aid \<and> user_id r = uid)
     (map (\<lambda>r. if account_id r = aid \<and> user_id r = uid then r\<lparr>balance := nb\<rparr> else r) xs)
   = map (\<lambda>r. r\<lparr>balance := nb\<rparr>) (filter (\<lambda>r. account_id r = aid \<and> user_id r = uid) xs)"
  by (induction xs) auto

lemma select_account_update_balance:
  "select_account aid uid (update_balance nb aid uid d)
     = map (\<lambda>r. r\<lparr>balance := nb\<rparr>) (select_account aid uid d)"
  by (simp add: select_account_def update_balance_def filter_update_rows)





lemma patch_balance_insufficient:
  assumes "truthy amount" and "typeof amount = ''number''"
    and "ty = JStr ''credit'' \<or> ty = JStr ''debit''"
    and "bind_ids E accountId uid = Some (aid, owner)"
    and "stored_balance (pool s) aid owner = Some b"
    and "(if ty = JStr ''credit'' then b + num_of amount else b - num_of amount) < 0"
  shows "patch_balance E uid accountId amount ty s =
           (Response 400 (ErrorBody ''Insufficient funds''),
            s\<lparr>logger := logger s @ [InsufficientFundsAttempt accountId b amount ty]\<rparr>)"
  using assms
  by (auto simp: patch_balance_def patch_select_def stored_balance_def Let_def
      split: list.splits)

section \<open>Balances that are never negative, and one that is\<close>

lemma nonneg_update_balance:
  "nonneg d \<Longrightarrow> 0 \<le> b \<Longrightarrow> nonneg (update_balance b aid uid d)"
  by (auto simp: nonneg_def update_balance_def list_all_iff)

lemma patch_update_nonneg:
  "nonneg (pool s) \<Longrightarrow> 0 \<le> new \<Longrightarrow>
   nonneg (pool (snd (patch_update E uid accountId amount ty cur new s)))"
  by (simp add: patch_update_def nonneg_update_balance split: option.splits prod.splits)

lemma post_account_nonneg:
  "nonneg (pool s) \<Longrightarrow> typeof dep = ''number'' \<or> dep = JUndefined \<Longrightarrow>
   nonneg (pool (snd (post_account E rnd uid ty dep s)))"
  by (auto simp: post_account_def Let_def typeof_number balance_param_def bind_insert_def
      insert_account_def nonneg_def js_lt_def js_gt_def split: option.splits)

lemma patch_balance_nonneg:
  assumes "nonneg (pool s)"
  shows "nonneg (pool (snd (patch_balance E uid accountId amount ty s)))"
proof (cases "patch_select E uid accountId amount ty s")
  case (Pair ph s')
  show ?thesis
  proof (cases ph)
    case (Replied r)
    with assms Pair patch_select_pool [of E uid accountId amount ty s] show ?thesis
      by (simp add: patch_balance_def)
  next
    case (AwaitingUpdate cur new)
    with assms Pair patch_select_awaiting [of E uid accountId amount ty s cur new s']
    show ?thesis
      by (simp add: patch_balance_def patch_update_nonneg)
  qed
qed

lemma map_of_inflight_nonneg:
  "list_all inflight_nonneg xs \<Longrightarrow> map_of xs k = Some (InFlight uid a am ty cur new) \<Longrightarrow> 0 \<le> new"
  by (induction xs) (auto split: if_splits)

lemma step_never_negative:
  assumes "never_negative c" and "deposit_is_number e"
  shows "never_negative (step E e c)"
proof (cases e)
  case (GetAccount uid accountId)
  with assms get_account_pool [of E uid accountId "acct c"] show ?thesis
    by (auto simp: never_negative_def split: prod.splits)
next
  case (PostAccount rnd uid ty dep)
  with assms post_account_nonneg [of "acct c" dep E rnd uid ty] show ?thesis
    by (auto simp: never_negative_def split: prod.splits)
next
  case (Patch uid accountId amount ty)
  with assms patch_balance_nonneg [of "acct c" E uid accountId amount ty] show ?thesis
    by (auto simp: never_negative_def split: prod.splits)
next
  case (PatchArrives k uid accountId amount ty)
  show ?thesis
  proof (cases "patch_select E uid accountId amount ty (acct c)")
    case (Pair ph s')
    with assms PatchArrives patch_select_pool [of E uid accountId amount ty "acct c"]
      patch_select_awaiting [of E uid accountId amount ty "acct c" _ _ s']
    show ?thesis
      by (cases ph) (auto simp: never_negative_def)
  qed
next
  case (PatchResumes k)
  show ?thesis
  proof (cases "map_of (awaiting c) k")
    case None
    with assms PatchResumes show ?thesis by simp
  next
    case (Some f)
    obtain uid a am ty cur new where f: "f = InFlight uid a am ty cur new" by (cases f)
    from assms Some f have "0 \<le> new"
      by (auto simp: never_negative_def dest: map_of_inflight_nonneg)
    with assms Some f PatchResumes patch_update_nonneg [of "acct c" new E uid a am ty cur]
    show ?thesis
      by (auto simp: never_negative_def list_all_iff split: prod.splits)
  qed
next
  case (PostTransaction rnd t1 t2 f t am)
  with assms show ?thesis by (simp add: never_negative_def split: prod.splits)
next
  case (GetTransaction i t)
  with assms show ?thesis by (simp add: never_negative_def)
qed

text \<open>
  While every account is opened with a deposit that is a number (or with none), no
  schedule of requests, split balance updates included, makes a stored balance negative.
\<close>

lemma run_never_negative:
  "never_negative c \<Longrightarrow> list_all deposit_is_number evs \<Longrightarrow> never_negative (run E evs c)"
  unfolding run_def
  by (induction evs arbitrary: c) (simp_all add: step_never_negative)

text \<open>
  C1. No stored balance should ever be negative, and opening an account should refuse a
  negative deposit. The validation of the deposit compares it with 0 and 1,000,000 and
  never tests that it is a number, as the validation of a balance update does. The text
  \<^verbatim>\<open>-1_000\<close> is not a number in JavaScript, so neither comparison is true of it; it is
  handed to the insertion, PostgreSQL 16 reads it as -1000, and the request is answered
  201 with a balance of -1000 stored.
\<close>

theorem text_deposit_stored_negative:
  "post_account postgres16_env 123456 1 (JStr ''checking'') (JStr ''-1_000'') no_accounts
     = (Response 201 (CreatedBody 1 ''******3456'' (JStr ''checking'') (JStr ''-1_000'')),
        \<lparr>pool = \<lparr>accounts = [\<lparr>account_id = 1, user_id = 1, account_number = ''0000123456'',
                               account_type = ''checking'', balance = - 1000\<rparr>],
                 next_account_id = 2\<rparr>,
         logger = [NewAccountCreated 1 1 (JStr ''checking'')]\<rparr>)"
  by (simp add: handler_defs string_defs replicate_4 postgres16_env_def plain_env_def
      no_accounts_def Let_def)

theorem text_deposit_stored_negative_witness:
  "\<not> nonneg (pool (acct (run postgres16_env
        [PostAccount 123456 1 (JStr ''checking'') (JStr ''-1_000'')] initial_system)))
   \<and> balances_of (pool (acct (run postgres16_env
        [PostAccount 123456 1 (JStr ''checking'') (JStr ''-1_000'')] initial_system))) 1
     = [- 1000]"
proof -
  have "acct initial_system = no_accounts"
    by (simp add: initial_system_def no_accounts_def)
  with text_deposit_stored_negative show ?thesis
    by (simp add: run_def nonneg_def balances_of_def)
qed

section \<open>Negative amounts\<close>




text \<open>
  C7. The amount of a balance update should be positive. The validation tests that the
  amount is a number other than zero and never its sign: a debit of -50 on an account
  holding 100 is answered 200 and the account then holds 150.
\<close>

theorem negative_debit_credits_account:
  "patch_balance plain_env 1 ''1'' (JNum (- 50)) (JStr ''debit'') ledger100
     = (Response 200 (BalanceBody 150 (JStr ''debit'') (JNum (- 50))),
        \<lparr>pool = \<lparr>accounts = [\<lparr>account_id = 1, user_id = 1, account_number = ''0000123456'',
                               account_type = ''checking'', balance = 150\<rparr>],
                 next_account_id = 2\<rparr>,
         logger = [BalanceUpdated ''1'' 100 150 (JStr ''debit'') (JNum (- 50))]\<rparr>)"
  by (simp add: handler_defs string_defs plain_env_def ledger100_def Let_def)

theorem negative_debit_credits_account_witness:
  "status (fst (patch_balance plain_env 1 ''1'' (JNum (- 50)) (JStr ''debit'') ledger100)) = 200
   \<and> balances_of (pool (snd (patch_balance plain_env 1 ''1'' (JNum (- 50)) (JStr ''debit'')
        ledger100))) 1 = [150]
   \<and> balances_of (pool ledger100) 1 = [100]"
  using negative_debit_credits_account by (simp add: balances_of_def ledger100_def)

section \<open>Opening an account\<close>

text \<open>
  C8. An initial deposit of exactly 0 lies in the interval from 0 to 1,000,000, yet the
  request is refused: the test for a missing deposit, \<^verbatim>\<open>!initialDeposit\<close>, is also true of
  the number 0.
\<close>

theorem zero_deposit_rejected:
  "post_account plain_env 123456 1 (JStr ''checking'') (JNum 0) no_accounts
     = (Response 400 (ErrorBody ''Invalid initial deposit amount''), no_accounts)"
  by (simp add: handler_defs)

theorem zero_deposit_rejected_witness:
  "status (fst (post_account plain_env 123456 1 (JStr ''checking'') (JNum 0) no_accounts)) = 400
   \<and> accounts (pool (snd (post_account plain_env 123456 1 (JStr ''checking'') (JNum 0)
        no_accounts))) = []"
  using zero_deposit_rejected by (simp add: no_accounts_def empty_database_def)

section \<open>Callers who do not own the account\<close>




text \<open>
  Ids beyond the doubles and beyond the columns: \<^verbatim>\<open>parseInt\<close> rounds 9007199254740993 to
  9007199254740992, so that caller passes the comparison, and the query then raises
  because the column cannot hold the id.
\<close>

lemma get_account_beyond_columns:
  "parseInt ''9007199254740993'' = Some 9007199254740992"
  "fst (get_account plain_env 9007199254740992 ''9007199254740993'' ledger7) = internal_error"
  "fst (get_account plain_env 9007199254740993 ''9007199254740993'' ledger7)
     = Response 403 (ErrorBody ''Access denied'')"
  by (simp_all add: get_account_def bind_ids_def plain_env_def string_defs)




section \<open>The balance is read, then written\<close>

lemma patch_balance_status:
  "status (fst (patch_balance E uid accountId amount ty s)) \<in> {200, 400, 404, 500}"
  by (auto simp: patch_balance_def patch_select_def patch_update_def internal_error_def Let_def
      split: option.splits list.splits prod.splits)

text \<open>
  C4. A balance update writes with one unconditional \<^verbatim>\<open>UPDATE\<close>: whatever balance the
  selected rows hold when the handler resumes, the write succeeds (the database reading
  the two ids as it did for the first query), stores the new balance computed from the
  balance read earlier, and the answer is 200. Nothing is retried, and
  a balance update is answered with status 200, 400, 404 or 500 only.
\<close>

theorem update_is_unconditional:
  "(bind_ids E accountId uid = Some (aid, owner) \<longrightarrow>
      fst (patch_update E uid accountId amount transactionType currentBalance newBalance s)
        = Response 200 (BalanceBody newBalance transactionType amount)
      \<and> map balance (select_account aid owner (pool (snd
           (patch_update E uid accountId amount transactionType currentBalance newBalance s))))
        = map (\<lambda>r. newBalance) (select_account aid owner (pool s)))
   \<and> status (fst (patch_balance E uid accountId amount transactionType s)) \<in> {200, 400, 404, 500}"
  using patch_balance_status [of E uid accountId amount transactionType s]
  by (simp add: patch_update_def select_account_update_balance comp_def)

theorem update_is_unconditional_witness:
  "fst (patch_update plain_env 1 ''1'' (JNum 30) (JStr ''debit'') 100 70 ledger60)
     = Response 200 (BalanceBody 70 (JStr ''debit'') (JNum 30))
   \<and> map balance (select_account 1 1 (pool (snd
        (patch_update plain_env 1 ''1'' (JNum 30) (JStr ''debit'') 100 70 ledger60)))) = [70]
   \<and> map balance (select_account 1 1 (pool ledger60)) = [60]"
proof -
  have cast: "bind_ids plain_env ''1'' 1 = Some (1, 1)"
    by (simp add: bind_ids_def plain_env_def string_defs)
  have rows: "map balance (select_account 1 1 (pool ledger60)) = [60]"
    and "map (\<lambda>r. 70::rat) (select_account 1 1 (pool ledger60)) = [70]"
    by (simp_all add: select_account_def ledger60_def)
  with cast
    update_is_unconditional [of plain_env "''1''" 1 1 1 "JNum 30" "JStr ''debit''" 100 70 ledger60]
  show ?thesis by simp
qed

text \<open>
  C4 as stated asks the write to fail when the stored balance is no longer the balance
  read. Two debits of 40 and 30 both read 100; the first writes 60; the second, resumed
  while 60 is stored, is answered 200 and writes 70.
\<close>

theorem stale_write_succeeds:
  "awaiting (run plain_env
       [PatchArrives 1 1 ''1'' (JNum 40) (JStr ''debit''),
        PatchArrives 2 1 ''1'' (JNum 30) (JStr ''debit''),
        PatchResumes 1] (system_of ledger100))
     = [(2, InFlight 1 ''1'' (JNum 30) (JStr ''debit'') 100 70)]
   \<and> stored_balance (pool (acct (run plain_env
       [PatchArrives 1 1 ''1'' (JNum 40) (JStr ''debit''),
        PatchArrives 2 1 ''1'' (JNum 30) (JStr ''debit''),
        PatchResumes 1] (system_of ledger100)))) 1 1 = Some 60
   \<and> sent (run plain_env
       [PatchArrives 1 1 ''1'' (JNum 40) (JStr ''debit''),
        PatchArrives 2 1 ''1'' (JNum 30) (JStr ''debit''),
        PatchResumes 1, PatchResumes 2] (system_of ledger100))
     = [Response 200 (BalanceBody 60 (JStr ''debit'') (JNum 40)),
        Response 200 (BalanceBody 70 (JStr ''debit'') (JNum 30))]
   \<and> stored_balance (pool (acct (run plain_env
       [PatchArrives 1 1 ''1'' (JNum 40) (JStr ''debit''),
        PatchArrives 2 1 ''1'' (JNum 30) (JStr ''debit''),
        PatchResumes 1, PatchResumes 2] (system_of ledger100)))) 1 1 = Some 70"
  by (simp add: handler_defs string_defs example_defs ledger100_def Let_def)

section \<open>Transfers\<close>

text \<open>
  C2. A transfer request with a source, a destination and a positive amount is answered
  201 with a record of status \<^verbatim>\<open>completed\<close> that repeats the request; the state of the
  account service, every balance included, is what it was.
\<close>

theorem transfer_moves_nothing:
  "truthy fromAccount \<and> truthy toAccount \<and> 0 < a \<longrightarrow>
     acct (step E (PostTransaction rnd t1 t2 fromAccount toAccount (JNum a)) c) = acct c
     \<and> sent (step E (PostTransaction rnd t1 t2 fromAccount toAccount (JNum a)) c)
       = sent c @ [Response 201 (TransactionBody (''txn_'' @ take 9 (drop 2 rnd)) ''completed''
                     fromAccount toAccount (JNum a) t2)]"
  by (simp add: post_transaction_def js_le_def Let_def)

theorem transfer_moves_nothing_witness:
  "acct (step plain_env (PostTransaction ''0.4fzyo82mvyr'' ''t1'' ''t2'' (JNum 1) (JNum 2) (JNum 50))
       (system_of two_accounts)) = two_accounts
   \<and> sent (step plain_env (PostTransaction ''0.4fzyo82mvyr'' ''t1'' ''t2'' (JNum 1) (JNum 2) (JNum 50))
       (system_of two_accounts))
     = [Response 201 (TransactionBody ''txn_4fzyo82mv'' ''completed'' (JNum 1) (JNum 2) (JNum 50) ''t2'')]"
  using transfer_moves_nothing [of "JNum 1" "JNum 2" 50 plain_env "''0.4fzyo82mvyr''" "''t1''" "''t2''"
      "system_of two_accounts"]
  by (simp add: system_of_def)

text \<open>
  C2 as stated asks the balances to move. After a transfer of 50 from account 1, holding
  60, to account 2, holding 10, they hold 60 and 10.
\<close>

theorem transfer_leaves_balances:
  "balances_of (pool (acct (step plain_env
       (PostTransaction ''0.4fzyo82mvyr'' ''t1'' ''t2'' (JNum 1) (JNum 2) (JNum 50))
       (system_of two_accounts)))) 1 = [60]
   \<and> balances_of (pool (acct (step plain_env
       (PostTransaction ''0.4fzyo82mvyr'' ''t1'' ''t2'' (JNum 1) (JNum 2) (JNum 50))
       (system_of two_accounts)))) 2 = [10]
   \<and> map record_status (sent (step plain_env
       (PostTransaction ''0.4fzyo82mvyr'' ''t1'' ''t2'' (JNum 1) (JNum 2) (JNum 50))
       (system_of two_accounts))) = [Some ''completed'']"
  by (simp add: handler_defs example_defs two_accounts_def Let_def)

text \<open>
  C3. No transfer fails after validation: for every source and destination, existing or
  not, and every positive amount, the record returned has status \<^verbatim>\<open>completed\<close>, a later
  query of the transaction reports \<^verbatim>\<open>completed\<close>, and the database of accounts is what it
  was before the transfer, the source balance included.
\<close>

theorem transfer_never_fails:
  "truthy fromAccount \<and> truthy toAccount \<and> 0 < a \<longrightarrow>
     pool (acct (run E [PostTransaction rnd t1 t2 fromAccount toAccount (JNum a),
                        GetTransaction transactionId t3] c)) = pool (acct c)
     \<and> map record_status (sent (run E [PostTransaction rnd t1 t2 fromAccount toAccount (JNum a),
                        GetTransaction transactionId t3] c))
       = map record_status (sent c) @ [Some ''completed'', Some ''completed'']"
  by (simp add: run_def post_transaction_def get_transaction_def js_le_def Let_def)

theorem transfer_never_fails_witness:
  "pool (acct (run plain_env [PostTransaction ''0.4fzyo82mvyr'' ''t1'' ''t2'' (JNum 1) (JNum 9) (JNum 50),
                        GetTransaction ''txn_4fzyo82mv'' ''t3''] (system_of ledger60))) = pool ledger60
   \<and> map record_status (sent (run plain_env
        [PostTransaction ''0.4fzyo82mvyr'' ''t1'' ''t2'' (JNum 1) (JNum 9) (JNum 50),
         GetTransaction ''txn_4fzyo82mv'' ''t3''] (system_of ledger60)))
       = [Some ''completed'', Some ''completed'']"
  using transfer_never_fails [of "JNum 1" "JNum 9" 50 plain_env "''0.4fzyo82mvyr''" "''t1''" "''t2''"
      "''txn_4fzyo82mv''" "''t3''" "system_of ledger60"]
  by (simp add: system_of_def)

text \<open>
  C3 as stated asks for status \<^verbatim>\<open>failed\<close>. No account 9 exists; a transfer of 50 from
  account 1 to account 9 is reported \<^verbatim>\<open>completed\<close>, by the request and by the query.
\<close>

theorem transfer_to_missing_account_completed:
  "balances_of (pool ledger60) 9 = []
   \<and> sent (run plain_env [PostTransaction ''0.4fzyo82mvyr'' ''t1'' ''t2'' (JNum 1) (JNum 9) (JNum 50),
                        GetTransaction ''txn_4fzyo82mv'' ''t3''] (system_of ledger60))
     = [Response 201 (TransactionBody ''txn_4fzyo82mv'' ''completed'' (JNum 1) (JNum 9) (JNum 50) ''t2''),
        Response 200 (TransactionInfo ''txn_4fzyo82mv'' ''completed'' 150 ''t3'' ''Account transfer'')]
   \<and> balances_of (pool (acct (run plain_env
        [PostTransaction ''0.4fzyo82mvyr'' ''t1'' ''t2'' (JNum 1) (JNum 9) (JNum 50),
         GetTransaction ''txn_4fzyo82mv'' ''t3''] (system_of ledger60)))) 1 = [60]"
  by (simp add: handler_defs example_defs ledger60_def Let_def)

text \<open>
  C9. A transfer request whose source, destination or amount is missing, or whose amount
  is not positive, is answered 400 \<^verbatim>\<open>Invalid transaction data\<close> at once, and the account
  service is not touched. A request whose source is its destination, with a positive
  amount, is answered 201 with a record of status \<^verbatim>\<open>completed\<close>.
\<close>

theorem invalid_transfer_rejected:
  "(\<not> truthy fromAccount \<or> \<not> truthy toAccount \<or> \<not> truthy amount \<or> js_le E amount 0 \<longrightarrow>
      post_transaction E rnd t1 t2 fromAccount toAccount amount lg
        = (Response 400 (ErrorBody ''Invalid transaction data''),
           lg @ [InvalidTransactionRequest fromAccount toAccount amount])
      \<and> acct (step E (PostTransaction rnd t1 t2 fromAccount toAccount amount) c) = acct c)
   \<and> (a \<le> 0 \<longrightarrow>
        fst (post_transaction E rnd t1 t2 fromAccount toAccount (JNum a) lg)
          = Response 400 (ErrorBody ''Invalid transaction data''))
   \<and> (truthy fromAccount \<and> 0 < a \<longrightarrow>
        fst (post_transaction E rnd t1 t2 fromAccount fromAccount (JNum a) lg)
          = Response 201 (TransactionBody (''txn_'' @ take 9 (drop 2 rnd)) ''completed''
              fromAccount fromAccount (JNum a) t2))"
  by (auto simp: post_transaction_def js_le_def Let_def split: prod.splits)

theorem invalid_transfer_rejected_witness:
  "post_transaction plain_env ''0.4fzyo82mvyr'' ''t1'' ''t2'' (JNum 1) (JNum 2) (JNum (- 5)) []
     = (Response 400 (ErrorBody ''Invalid transaction data''),
        [InvalidTransactionRequest (JNum 1) (JNum 2) (JNum (- 5))])
   \<and> acct (step plain_env (PostTransaction ''0.4fzyo82mvyr'' ''t1'' ''t2'' (JNum 1) (JNum 2) (JNum (- 5)))
        (system_of two_accounts)) = two_accounts
   \<and> fst (post_transaction plain_env ''0.4fzyo82mvyr'' ''t1'' ''t2'' (JNum 1) (JNum 2) (JNum 0) [])
      = Response 400 (ErrorBody ''Invalid transaction data'')
   \<and> fst (post_transaction plain_env ''0.4fzyo82mvyr'' ''t1'' ''t2'' (JNum 1) (JNum 1) (JNum 50) [])
      = Response 201 (TransactionBody ''txn_4fzyo82mv'' ''completed'' (JNum 1) (JNum 1) (JNum 50) ''t2'')"
proof -
  have neg: "js_le plain_env (JNum (- 5)) 0" by (simp add: js_le_def)
  from neg
    invalid_transfer_rejected [of "JNum 1" "JNum 2" "JNum (- 5)" plain_env "''0.4fzyo82mvyr''" "''t1''"
      "''t2''" "[]" "system_of two_accounts" "0"]
    invalid_transfer_rejected [of "JNum 1" "JNum 2" "JNum (- 5)" plain_env "''0.4fzyo82mvyr''" "''t1''"
      "''t2''" "[]" "system_of two_accounts" "50"]
  show ?thesis by (simp add: system_of_def)
qed

text \<open>
  C9 as stated asks a transfer from an account to itself to be rejected. A transfer of 50
  from account 1 to account 1 is answered 201.
\<close>

theorem same_account_transfer_accepted:
  "post_transaction plain_env ''0.4fzyo82mvyr'' ''t1'' ''t2'' (JNum 1) (JNum 1) (JNum 50) []
     = (Response 201 (TransactionBody ''txn_4fzyo82mv'' ''completed'' (JNum 1) (JNum 1) (JNum 50) ''t2''),
        [TransactionProcessed ''txn_4fzyo82mv'' (JNum 1) (JNum 1) (JNum 50) ''t1''])"
  by (simp add: handler_defs Let_def)

section \<open>Replaying the log\<close>

lemma replay_append: "replay E aid b (es @ es') = replay E aid (replay E aid b es) es'"
  by (simp add: replay_def)

lemma replay_no_update:
  "list_all (\<lambda>e. \<not> is_balance_updated e) es \<Longrightarrow> replay E aid b es = b"
  unfolding replay_def
proof (induction es)
  case Nil
  show ?case by simp
next
  case (Cons e es)
  then show ?case by (cases e) simp_all
qed

lemma patch_balance_cases:
  obtains (refused) r es where
      "patch_balance E uid accountId amount ty s = (r, s\<lparr>logger := logger s @ es\<rparr>)"
      "list_all (\<lambda>e. \<not> is_balance_updated e) es" "status r \<noteq> 200"
  | (updated) aid owner row rest new where
      "pg_int E accountId = Some aid" "select_account aid owner (pool s) = row # rest"
      "new = (if ty = JStr ''credit'' then balance row + num_of amount
              else balance row - num_of amount)"
      "patch_balance E uid accountId amount ty s =
         (Response 200 (BalanceBody new ty amount),
          \<lparr>pool = update_balance new aid owner (pool s),
           logger = logger s @ [BalanceUpdated accountId (balance row) new ty amount]\<rparr>)"
proof (cases "\<not> truthy amount \<or> typeof amount \<noteq> ''number''
              \<or> ty \<notin> set [JStr ''credit'', JStr ''debit'']")
  case True
  then have "patch_balance E uid accountId amount ty s
               = (fst (patch_balance E uid accountId amount ty s), s\<lparr>logger := logger s @ []\<rparr>)"
    and "status (fst (patch_balance E uid accountId amount ty s)) \<noteq> 200"
    by (auto simp: patch_balance_def patch_select_def)
  then show ?thesis using refused [of _ "[]"] by simp
next
  case valid: False
  show ?thesis
  proof (cases "bind_ids E accountId uid")
    case None
    with valid have "patch_balance E uid accountId amount ty s
        = (internal_error, s\<lparr>logger := logger s @ [ErrorUpdatingBalance accountId uid]\<rparr>)"
      by (auto simp: patch_balance_def patch_select_def)
    then show ?thesis using refused [of internal_error "[ErrorUpdatingBalance accountId uid]"]
      by (simp add: internal_error_def)
  next
    case (Some ids)
    obtain aid owner where ids: "ids = (aid, owner)"
      by (cases ids)
    with Some have cast: "pg_int E accountId = Some aid"
      by (auto simp: bind_ids_def split: option.splits)
    show ?thesis
    proof (cases "select_account aid owner (pool s)")
      case Nil
      with valid Some ids have "patch_balance E uid accountId amount ty s
          = (Response 404 (ErrorBody ''Account not found''), s\<lparr>logger := logger s @ []\<rparr>)"
        by (auto simp: patch_balance_def patch_select_def)
      then show ?thesis using refused [of _ "[]"] by simp
    next
      case (Cons row rest)
      define new where "new = (if ty = JStr ''credit'' then balance row + num_of amount
              else balance row - num_of amount)"
      show ?thesis
      proof (cases "new < 0")
        case True
        with valid Some ids Cons new_def have "patch_balance E uid accountId amount ty s
          = (Response 400 (ErrorBody ''Insufficient funds''),
             s\<lparr>logger := logger s @ [InsufficientFundsAttempt accountId (balance row) amount ty]\<rparr>)"
          by (auto simp: patch_balance_def patch_select_def Let_def)
        then show ?thesis
          using refused [of _ "[InsufficientFundsAttempt accountId (balance row) amount ty]"]
          by simp
      next
        case False
        with valid Some ids Cons new_def have "patch_balance E uid accountId amount ty s =
         (Response 200 (BalanceBody new ty amount),
          \<lparr>pool = update_balance new aid owner (pool s),
           logger = logger s @ [BalanceUpdated accountId (balance row) new ty amount]\<rparr>)"
          by (auto simp: patch_balance_def patch_select_def patch_update_def Let_def)
        with cast Cons new_def show ?thesis using updated by blast
      qed
    qed
  qed
qed

lemma filter_id_update_rows:
  "filter (\<lambda>r. account_id r = aid)
     (map (\<lambda>r. if account_id r = aid' \<and> user_id r = uid then r\<lparr>balance := nb\<rparr> else r) xs)
   = map (\<lambda>r. if account_id r = aid' \<and> user_id r = uid then r\<lparr>balance := nb\<rparr> else r)
       (filter (\<lambda>r. account_id r = aid) xs)"
  by (induction xs) auto

lemma balances_of_single:
  "balances_of d aid = [b] \<Longrightarrow> \<exists>r. filter (\<lambda>r. account_id r = aid) (accounts d) = [r] \<and> balance r = b"
  by (auto simp: balances_of_def)

lemma select_account_via_id:
  "select_account aid uid d
     = filter (\<lambda>r. user_id r = uid) (filter (\<lambda>r. account_id r = aid) (accounts d))"
  by (auto simp: select_account_def intro: filter_cong)

lemma balances_of_update_same:
  assumes "balances_of d aid = [b]" and "select_account aid uid d = row # rest"
  shows "balance row = b" and "balances_of (update_balance nb aid uid d) aid = [nb]"
proof -
  from assms(1) obtain r where r: "filter (\<lambda>r. account_id r = aid) (accounts d) = [r]"
    and b: "balance r = b"
    using balances_of_single by blast
  from assms(2) r have "user_id r = uid \<and> row = r"
    by (auto simp: select_account_via_id split: if_splits)
  moreover have "account_id r = aid"
  proof -
    from r have "r \<in> set (filter (\<lambda>r. account_id r = aid) (accounts d))" by simp
    then show ?thesis by simp
  qed
  ultimately show "balance row = b" and "balances_of (update_balance nb aid uid d) aid = [nb]"
    using r b by (simp_all add: balances_of_def update_balance_def filter_id_update_rows)
qed

lemma balances_of_update_other:
  assumes "aid' \<noteq> aid"
  shows "balances_of (update_balance nb aid' uid d) aid = balances_of d aid"
proof -
  have "map (\<lambda>r. if account_id r = aid' \<and> user_id r = uid then r\<lparr>balance := nb\<rparr> else r)
          (filter (\<lambda>r. account_id r = aid) (accounts d))
        = filter (\<lambda>r. account_id r = aid) (accounts d)"
    using assms by (intro map_idI) auto
  then show ?thesis
    by (simp add: balances_of_def update_balance_def filter_id_update_rows)
qed

lemma sequence_ahead_update:
  "sequence_ahead d \<Longrightarrow> sequence_ahead (update_balance nb aid uid d)"
  by (auto simp: sequence_ahead_def update_balance_def list_all_iff)

lemma get_account_replay:
  "\<exists>es. snd (get_account E uid accountId s) = s\<lparr>logger := logger s @ es\<rparr>
        \<and> list_all (\<lambda>e. \<not> is_balance_updated e) es"
proof -
  have "\<exists>e. snd (get_account E uid accountId s) = s\<lparr>logger := logger s @ [e]\<rparr>
        \<and> \<not> is_balance_updated e"
    by (auto simp: get_account_def split: option.splits list.splits)
  then obtain e where "snd (get_account E uid accountId s) = s\<lparr>logger := logger s @ [e]\<rparr>"
    and "list_all (\<lambda>e. \<not> is_balance_updated e) [e]"
    by auto
  then show ?thesis by blast
qed

lemma post_account_replay:
  assumes "sequence_ahead (pool s)" and "balances_of (pool s) aid = [b]"
  shows "\<exists>es. logger (snd (post_account E rnd uid ty dep s)) = logger s @ es
        \<and> list_all (\<lambda>e. \<not> is_balance_updated e) es
        \<and> balances_of (pool (snd (post_account E rnd uid ty dep s))) aid = [b]
        \<and> sequence_ahead (pool (snd (post_account E rnd uid ty dep s)))"
proof -
  from assms(2) obtain r where "r \<in> set (accounts (pool s))" and "account_id r = aid"
    by (fastforce simp: balances_of_def filter_eq_Cons_iff)
  with assms(1) have below: "aid < next_account_id (pool s)"
    by (auto simp: sequence_ahead_def list_all_iff)
  show ?thesis
  proof (cases "snd (post_account E rnd uid ty dep s) = s")
    case True
    with assms show ?thesis by simp
  next
    case False
    then consider
      (failed) "snd (post_account E rnd uid ty dep s)
                  = s\<lparr>logger := logger s @ [ErrorCreatingAccount uid]\<rparr>"
    | (created) owner n t x where "snd (post_account E rnd uid ty dep s)
          = \<lparr>pool = snd (insert_account owner n t x (pool s)),
             logger = logger s @ [NewAccountCreated (next_account_id (pool s)) uid ty]\<rparr>"
      by (auto simp: post_account_def Let_def insert_account_def
          split: option.splits if_splits prod.splits)
    then show ?thesis
    proof cases
      case failed
      with assms show ?thesis by simp
    next
      case created
      with assms below show ?thesis
        by (auto simp: insert_account_def balances_of_def sequence_ahead_def list_all_iff)
    qed
  qed
qed

lemma patch_balance_replay:
  assumes "sequence_ahead (pool s)" and "balances_of (pool s) aid = [b]"
  shows "\<exists>es. logger (snd (patch_balance E uid accountId amount ty s)) = logger s @ es
        \<and> balances_of (pool (snd (patch_balance E uid accountId amount ty s))) aid
            = [replay E aid b es]
        \<and> sequence_ahead (pool (snd (patch_balance E uid accountId amount ty s)))"
proof (cases rule: patch_balance_cases [of E uid accountId amount ty s])
  case (refused r es)
  with assms show ?thesis
    by (simp add: replay_no_update)
next
  case (updated aid' owner row rest new)
  let ?e = "BalanceUpdated accountId (balance row) new ty amount"
  have "balances_of (update_balance new aid' owner (pool s)) aid = [replay E aid b [?e]]"
  proof (cases "aid' = aid")
    case True
    with updated(2) have sel: "select_account aid owner (pool s) = row # rest"
      by simp
    from True balances_of_update_same [OF assms(2) sel] have "balance row = b"
      and "balances_of (update_balance new aid' owner (pool s)) aid = [new]"
      by simp_all
    with True updated(1,3) show ?thesis by (simp add: replay_def)
  next
    case False
    with assms(2) updated(1) show ?thesis
      by (simp add: balances_of_update_other replay_def)
  qed
  with updated(4) assms(1) show ?thesis
    by (simp add: sequence_ahead_update)
qed

lemma step_replay:
  assumes "sequence_ahead (pool (acct c))" and "unsplit e"
    and "balances_of (pool (acct c)) aid = [b]"
  shows "\<exists>es. logger (acct (step E e c)) = logger (acct c) @ es
        \<and> balances_of (pool (acct (step E e c))) aid = [replay E aid b es]
        \<and> sequence_ahead (pool (acct (step E e c)))"
proof (cases e)
  case (GetAccount uid accountId)
  from get_account_replay [of E uid accountId "acct c"] obtain es where
    "snd (get_account E uid accountId (acct c)) = (acct c)\<lparr>logger := logger (acct c) @ es\<rparr>"
    and "list_all (\<lambda>e. \<not> is_balance_updated e) es"
    by blast
  with assms GetAccount show ?thesis
    by (auto simp: replay_no_update split: prod.splits)
next
  case (PostAccount rnd uid ty dep)
  from post_account_replay [OF assms(1,3), of E rnd uid ty dep] PostAccount show ?thesis
    by (auto simp: replay_no_update split: prod.splits)
next
  case (Patch uid accountId amount ty)
  from patch_balance_replay [OF assms(1,3), of E uid accountId amount ty] Patch show ?thesis
    by (auto split: prod.splits)
next
  case (PatchArrives k uid accountId amount ty)
  with assms show ?thesis by simp
next
  case (PatchResumes k)
  with assms show ?thesis by simp
next
  case (PostTransaction rnd t1 t2 f t am)
  with assms show ?thesis by (simp add: replay_def split: prod.splits)
next
  case (GetTransaction i t)
  with assms show ?thesis by (simp add: replay_def)
qed

lemma run_replay:
  assumes "sequence_ahead (pool (acct c))" and "list_all unsplit evs"
    and "balances_of (pool (acct c)) aid = [b]"
  shows "\<exists>es. logger (acct (run E evs c)) = logger (acct c) @ es
        \<and> balances_of (pool (acct (run E evs c))) aid = [replay E aid b es]"
  using assms
proof (induction evs arbitrary: c b)
  case Nil
  then show ?case by (simp add: run_def replay_def)
next
  case (Cons e evs)
  from Cons.prems step_replay [of c e aid b E] obtain es where
    es: "logger (acct (step E e c)) = logger (acct c) @ es"
      "balances_of (pool (acct (step E e c))) aid = [replay E aid b es]"
      "sequence_ahead (pool (acct (step E e c)))"
    by auto
  from Cons.IH [OF es(3) _ es(2)] Cons.prems(2) obtain es' where
    "logger (acct (run E evs (step E e c))) = logger (acct (step E e c)) @ es'"
    "balances_of (pool (acct (run E evs (step E e c)))) aid = [replay E aid (replay E aid b es) es']"
    by auto
  with es(1) have "logger (acct (run E (e # evs) c)) = logger (acct c) @ (es @ es')"
    and "balances_of (pool (acct (run E (e # evs) c))) aid = [replay E aid b (es @ es')]"
    by (simp_all add: run_def replay_append)
  then show ?case by blast
qed

lemma run_replay_drop:
  assumes "sequence_ahead (pool (acct c))" and "list_all unsplit evs"
    and "balances_of (pool (acct c)) aid = [b]"
  shows "balances_of (pool (acct (run E evs c))) aid
     = [replay E aid b (drop (length (logger (acct c))) (logger (acct (run E evs c))))]"
  using run_replay [OF assms, of E] by auto

lemma post_account_created:
  assumes "sequence_ahead (pool s)"
    and "status (fst (post_account E rnd uid ty (JNum d) s)) = 201"
  shows "balances_of (pool (snd (post_account E rnd uid ty (JNum d) s))) (next_account_id (pool s))
           = [d]"
    and "sequence_ahead (pool (snd (post_account E rnd uid ty (JNum d) s)))"
    and "logger (snd (post_account E rnd uid ty (JNum d) s))
           = logger s @ [NewAccountCreated (next_account_id (pool s)) uid ty]"
proof -
  from assms(1) have none: "filter (\<lambda>r. account_id r = next_account_id (pool s)) (accounts (pool s)) = []"
    by (auto simp: sequence_ahead_def list_all_iff filter_empty_conv)
  from assms(2) obtain owner where created: "snd (post_account E rnd uid ty (JNum d) s)
      = \<lparr>pool = snd (insert_account owner (padStart 10 (CHR ''0'') (toString rnd)) (str_of ty) d
                 (pool s)),
         logger = logger s @ [NewAccountCreated (next_account_id (pool s)) uid ty]\<rparr>"
    by (auto simp: post_account_def Let_def insert_account_def balance_param_def bind_insert_def
        internal_error_def split: if_splits option.splits)
  from created none show "balances_of (pool (snd (post_account E rnd uid ty (JNum d) s)))
      (next_account_id (pool s)) = [d]"
    by (simp add: balances_of_def insert_account_def)
  from created assms(1) show "sequence_ahead (pool (snd (post_account E rnd uid ty (JNum d) s)))"
    by (auto simp: sequence_ahead_def insert_account_def list_all_iff)
  from created show "logger (snd (post_account E rnd uid ty (JNum d) s))
           = logger s @ [NewAccountCreated (next_account_id (pool s)) uid ty]"
    by simp
qed

lemma run_replay_from_deposit:
  assumes "sequence_ahead (pool (acct c))" and "list_all unsplit evs"
    and "status (fst (post_account E rnd uid ty (JNum d) (acct c))) = 201"
  shows "balances_of (pool (acct (run E (PostAccount rnd uid ty (JNum d) # evs) c)))
           (next_account_id (pool (acct c)))
         = [replay E (next_account_id (pool (acct c))) d
              (drop (length (logger (acct c)))
                 (logger (acct (run E (PostAccount rnd uid ty (JNum d) # evs) c))))]"
proof -
  let ?n = "next_account_id (pool (acct c))"
  let ?c = "step E (PostAccount rnd uid ty (JNum d)) c"
  have acct: "acct ?c = snd (post_account E rnd uid ty (JNum d) (acct c))"
    by (simp split: prod.splits)
  from post_account_created [OF assms(1,3)] acct
  have bal: "balances_of (pool (acct ?c)) ?n = [d]"
    and ahead: "sequence_ahead (pool (acct ?c))"
    and lg: "logger (acct ?c) = logger (acct c) @ [NewAccountCreated ?n uid ty]"
    by simp_all
  from run_replay [OF ahead assms(2) bal, of E] obtain es where
    "logger (acct (run E evs ?c)) = logger (acct ?c) @ es"
    "balances_of (pool (acct (run E evs ?c))) ?n = [replay E ?n d es]"
    by blast
  moreover have "run E (PostAccount rnd uid ty (JNum d) # evs) c = run E evs ?c"
    by (simp add: run_def)
  ultimately show ?thesis using lg by (simp add: replay_def)
qed

text \<open>
  C5. A balance update that succeeds appends exactly one \<^verbatim>\<open>Balance updated\<close> entry to the
  log, in the same run of the handler that writes the balance; one that does not succeed
  leaves the database as it was and appends no such entry. Under a schedule in which no
  balance update is split by another request, replaying in order the entries logged since
  a state, from the balance an account held in that state, gives the balance it holds at
  the end; so does replaying, from its initial deposit, the entries logged since an
  account was opened.
\<close>

theorem audit_replay:
  "(status (fst (patch_balance E uid accountId amount transactionType s)) = 200 \<longrightarrow>
      (\<exists>currentBalance newBalance.
         fst (patch_balance E uid accountId amount transactionType s)
           = Response 200 (BalanceBody newBalance transactionType amount)
         \<and> logger (snd (patch_balance E uid accountId amount transactionType s))
           = logger s @
               [BalanceUpdated accountId currentBalance newBalance transactionType amount]))
   \<and> (status (fst (patch_balance E uid accountId amount transactionType s)) \<noteq> 200 \<longrightarrow>
        pool (snd (patch_balance E uid accountId amount transactionType s)) = pool s
        \<and> audit_entries (logger (snd (patch_balance E uid accountId amount transactionType s)))
            = audit_entries (logger s))
   \<and> (sequence_ahead (pool (acct c)) \<and> list_all unsplit evs
        \<and> balances_of (pool (acct c)) aid = [b] \<longrightarrow>
        balances_of (pool (acct (run E evs c))) aid
          = [replay E aid b (drop (length (logger (acct c))) (logger (acct (run E evs c))))])
   \<and> (sequence_ahead (pool (acct c)) \<and> list_all unsplit evs
        \<and> status (fst (post_account E rnd owner accountType (JNum d) (acct c))) = 201 \<longrightarrow>
        balances_of (pool (acct (run E (PostAccount rnd owner accountType (JNum d) # evs) c)))
            (next_account_id (pool (acct c)))
          = [replay E (next_account_id (pool (acct c))) d
               (drop (length (logger (acct c)))
                  (logger (acct (run E (PostAccount rnd owner accountType (JNum d) # evs) c))))])"
proof -
  have a: "status (fst (patch_balance E uid accountId amount transactionType s)) = 200 \<longrightarrow>
      (\<exists>currentBalance newBalance.
         fst (patch_balance E uid accountId amount transactionType s)
           = Response 200 (BalanceBody newBalance transactionType amount)
         \<and> logger (snd (patch_balance E uid accountId amount transactionType s))
           = logger s @
               [BalanceUpdated accountId currentBalance newBalance transactionType amount])"
    by (cases rule: patch_balance_cases [of E uid accountId amount transactionType s]) auto
  have b: "status (fst (patch_balance E uid accountId amount transactionType s)) \<noteq> 200 \<longrightarrow>
        pool (snd (patch_balance E uid accountId amount transactionType s)) = pool s
        \<and> audit_entries (logger (snd (patch_balance E uid accountId amount transactionType s)))
            = audit_entries (logger s)"
  proof (cases rule: patch_balance_cases [of E uid accountId amount transactionType s])
    case (refused r es)
    from refused(2) have "filter is_balance_updated es = []"
      by (simp add: list_all_iff)
    with refused(1) show ?thesis by (simp add: audit_entries_def)
  next
    case (updated aid owner row rest new)
    then show ?thesis by simp
  qed
  have c: "sequence_ahead (pool (acct c)) \<and> list_all unsplit evs
        \<and> balances_of (pool (acct c)) aid = [b] \<longrightarrow>
        balances_of (pool (acct (run E evs c))) aid
          = [replay E aid b (drop (length (logger (acct c))) (logger (acct (run E evs c))))]"
    using run_replay_drop [of c evs aid b E] by blast
  have d: "sequence_ahead (pool (acct c)) \<and> list_all unsplit evs
        \<and> status (fst (post_account E rnd owner accountType (JNum d) (acct c))) = 201 \<longrightarrow>
        balances_of (pool (acct (run E (PostAccount rnd owner accountType (JNum d) # evs) c)))
            (next_account_id (pool (acct c)))
          = [replay E (next_account_id (pool (acct c))) d
               (drop (length (logger (acct c)))
                  (logger (acct (run E (PostAccount rnd owner accountType (JNum d) # evs) c))))]"
    using run_replay_from_deposit [of c evs E rnd owner accountType d] by blast
  from a b c d show ?thesis by blast
qed

theorem audit_replay_witness:
  "balances_of (pool (acct (run plain_env
       [Patch 1 ''1'' (JNum 40) (JStr ''debit''), Patch 1 ''1'' (JNum 1000) (JStr ''debit''),
        Patch 1 ''1'' (JNum 25) (JStr ''credit'')] (system_of ledger100)))) 1 = [85]
   \<and> audit_entries (logger (acct (run plain_env
       [Patch 1 ''1'' (JNum 40) (JStr ''debit''), Patch 1 ''1'' (JNum 1000) (JStr ''debit''),
        Patch 1 ''1'' (JNum 25) (JStr ''credit'')] (system_of ledger100))))
     = [BalanceUpdated ''1'' 100 60 (JStr ''debit'') (JNum 40),
        BalanceUpdated ''1'' 60 85 (JStr ''credit'') (JNum 25)]
   \<and> pool (snd (patch_balance plain_env 1 ''1'' (JNum 1000) (JStr ''debit'') ledger60))
     = pool ledger60
   \<and> audit_entries (logger (snd (patch_balance plain_env 1 ''1'' (JNum 1000) (JStr ''debit'')
        ledger60))) = []
   \<and> logger (snd (patch_balance plain_env 1 ''1'' (JNum 40) (JStr ''debit'') ledger100))
     = [BalanceUpdated ''1'' 100 60 (JStr ''debit'') (JNum 40)]
   \<and> balances_of (pool (acct (run plain_env
       [PostAccount 123456 1 (JStr ''checking'') (JNum 100),
        Patch 1 ''1'' (JNum 40) (JStr ''debit''), Patch 1 ''1'' (JNum 1000) (JStr ''debit''),
        Patch 1 ''1'' (JNum 25) (JStr ''credit'')] initial_system))) 1 = [85]"
proof -
  let ?evs = "[Patch 1 ''1'' (JNum 40) (JStr ''debit''), Patch 1 ''1'' (JNum 1000) (JStr ''debit''),
        Patch 1 ''1'' (JNum 25) (JStr ''credit'')]"
  let ?c = "system_of ledger100"
  have hyp: "sequence_ahead (pool (acct ?c)) \<and> list_all unsplit ?evs
        \<and> balances_of (pool (acct ?c)) 1 = [100]"
    by (simp add: sequence_ahead_def system_of_def ledger100_def balances_of_def)
  have lg: "logger (acct (run plain_env ?evs ?c))
     = [BalanceUpdated ''1'' 100 60 (JStr ''debit'') (JNum 40),
        InsufficientFundsAttempt ''1'' 60 (JNum 1000) (JStr ''debit''),
        BalanceUpdated ''1'' 60 85 (JStr ''credit'') (JNum 25)]"
    by (simp add: handler_defs string_defs example_defs ledger100_def Let_def)
  have cast: "pg_int plain_env ''1'' = Some 1"
    by (simp add: plain_env_def string_defs)
  have none: "logger (acct ?c) = []"
    by (simp add: system_of_def ledger100_def)
  have refused: "status (fst (patch_balance plain_env 1 ''1'' (JNum 1000) (JStr ''debit'') ledger60))
      \<noteq> 200"
    by (simp add: handler_defs string_defs plain_env_def ledger60_def Let_def)
  have accepted: "status (fst (patch_balance plain_env 1 ''1'' (JNum 40) (JStr ''debit'') ledger100))
      = 200"
    by (simp add: handler_defs string_defs plain_env_def ledger100_def Let_def)
  have "logger ledger60 = []" and "logger ledger100 = []"
    by (simp_all add: ledger60_def ledger100_def)
  note thm1 = audit_replay [of plain_env 1 "''1''" "JNum 1000" "JStr ''debit''" ledger60 ?c ?evs 1 100]
  note thm2 = audit_replay [of plain_env 1 "''1''" "JNum 40" "JStr ''debit''" ledger100 ?c ?evs 1 100]
  note thm3 = audit_replay [of plain_env 1 "''1''" "JNum 40" "JStr ''debit''" ledger100
      initial_system ?evs 1 100 123456 1 "JStr ''checking''" 100]
  have opened: "sequence_ahead (pool (acct initial_system)) \<and> list_all unsplit ?evs
      \<and> status (fst (post_account plain_env 123456 1 (JStr ''checking'') (JNum 100)
            (acct initial_system))) = 201"
    by (simp add: handler_defs string_defs plain_env_def initial_system_def sequence_ahead_def
        Let_def)
  have first: "next_account_id (pool (acct initial_system)) = 1"
    and empty: "logger (acct initial_system) = []"
    by (simp_all add: initial_system_def empty_database_def)
  have lg0: "logger (acct (run plain_env
       (PostAccount 123456 1 (JStr ''checking'') (JNum 100) # ?evs) initial_system))
     = [NewAccountCreated 1 1 (JStr ''checking''),
        BalanceUpdated ''1'' 100 60 (JStr ''debit'') (JNum 40),
        InsufficientFundsAttempt ''1'' 60 (JNum 1000) (JStr ''debit''),
        BalanceUpdated ''1'' 60 85 (JStr ''credit'') (JNum 25)]"
    by (simp add: handler_defs string_defs example_defs Let_def)
  from thm3 opened have "balances_of (pool (acct (run plain_env
       (PostAccount 123456 1 (JStr ''checking'') (JNum 100) # ?evs) initial_system)))
         (next_account_id (pool (acct initial_system)))
     = [replay plain_env (next_account_id (pool (acct initial_system))) 100
          (drop (length (logger (acct initial_system)))
             (logger (acct (run plain_env
                (PostAccount 123456 1 (JStr ''checking'') (JNum 100) # ?evs) initial_system))))]"
    by blast
  with first empty lg0 cast have bal0: "balances_of (pool (acct (run plain_env
       (PostAccount 123456 1 (JStr ''checking'') (JNum 100) # ?evs) initial_system))) 1 = [85]"
    by (simp add: replay_def)
  from thm1 hyp have "balances_of (pool (acct (run plain_env ?evs ?c))) 1
      = [replay plain_env 1 100 (drop (length (logger (acct ?c))) (logger (acct (run plain_env ?evs ?c))))]"
    by blast
  with lg none cast have bal: "balances_of (pool (acct (run plain_env ?evs ?c))) 1 = [85]"
    by (simp add: replay_def)
  from thm1 refused have r: "pool (snd (patch_balance plain_env 1 ''1'' (JNum 1000) (JStr ''debit'') ledger60))
     = pool ledger60
   \<and> audit_entries (logger (snd (patch_balance plain_env 1 ''1'' (JNum 1000) (JStr ''debit'')
        ledger60))) = audit_entries (logger ledger60)"
    by blast
  from thm2 accepted obtain cur new where
    "fst (patch_balance plain_env 1 ''1'' (JNum 40) (JStr ''debit'') ledger100)
           = Response 200 (BalanceBody new (JStr ''debit'') (JNum 40))"
    "logger (snd (patch_balance plain_env 1 ''1'' (JNum 40) (JStr ''debit'') ledger100))
           = logger ledger100 @ [BalanceUpdated ''1'' cur new (JStr ''debit'') (JNum 40)]"
    by blast
  moreover have "logger (snd (patch_balance plain_env 1 ''1'' (JNum 40) (JStr ''debit'') ledger100))
     = [BalanceUpdated ''1'' 100 60 (JStr ''debit'') (JNum 40)]"
    by (simp add: handler_defs string_defs plain_env_def ledger100_def Let_def)
  ultimately have one: "logger (snd (patch_balance plain_env 1 ''1'' (JNum 40) (JStr ''debit'') ledger100))
     = [BalanceUpdated ''1'' 100 60 (JStr ''debit'') (JNum 40)]"
    by simp
  from bal bal0 lg r one \<open>logger ledger60 = []\<close> show ?thesis
    by (simp add: audit_entries_def)
qed

text \<open>
  C5 as stated has no condition on the schedule. A debit of 40 and a credit of 25 both
  read 100; the debit writes 60 and the credit then writes 125, while replaying the two
  entries from 100 gives 85.
\<close>

theorem interleaved_replay_differs:
  "balances_of (pool (acct (run plain_env
       [PatchArrives 1 1 ''1'' (JNum 40) (JStr ''debit''),
        PatchArrives 2 1 ''1'' (JNum 25) (JStr ''credit''),
        PatchResumes 1, PatchResumes 2] (system_of ledger100)))) 1 = [125]
   \<and> logger (acct (run plain_env
       [PatchArrives 1 1 ''1'' (JNum 40) (JStr ''debit''),
        PatchArrives 2 1 ''1'' (JNum 25) (JStr ''credit''),
        PatchResumes 1, PatchResumes 2] (system_of ledger100)))
     = [BalanceUpdated ''1'' 100 60 (JStr ''debit'') (JNum 40),
        BalanceUpdated ''1'' 100 125 (JStr ''credit'') (JNum 25)]
   \<and> replay plain_env 1 100 (logger (acct (run plain_env
       [PatchArrives 1 1 ''1'' (JNum 40) (JStr ''debit''),
        PatchArrives 2 1 ''1'' (JNum 25) (JStr ''credit''),
        PatchResumes 1, PatchResumes 2] (system_of ledger100)))) = 85"
  by (simp add: handler_defs string_defs example_defs ledger100_def replay_def Let_def)

end
